theory Spec2Isabelle
  imports Main "HOL-Library.Sublist"
begin

section \<open>Strings and cell values of the page component\<close>

text \<open>
  A JavaScript string is a sequence of UTF-16 code units. Every literal of
  \<^verbatim>\<open>src/pages/Index.tsx\<close> lies in the Basic Multilingual Plane, so a literal is the list
  of its code points. ASCII literals are written through \<open>ascii\<close>; the Russian ones are
  spelled out in hexadecimal, with a transliteration beside them.
\<close>

type_synonym js_string = "nat list"

definition ascii :: "string \<Rightarrow> js_string" where
  "ascii s = map of_char s"

text \<open>
  A cell as the spreadsheet decoder hands it over (\<^verbatim>\<open>any\<close> in the source). The payload of
  a number is left abstract: the page only ever tests \<^verbatim>\<open>typeof value === 'number'\<close> and
  copies the value. An array of cells may be sparse; an element of \<open>None\<close> is a hole.
\<close>

datatype 'n js_value =
    VNumber 'n
  | VString js_string
  | VBoolean bool
  | VNull
  | VUndefined

type_synonym 'n js_array = "'n js_value option list"

text \<open>\<^verbatim>\<open>interface ExcelData { headers: string[]; rows: any[][] }\<close>. The cast
  \<^verbatim>\<open>jsonData[0] as string[]\<close> does nothing at run time, so the headers are cells too.\<close>

record 'n ExcelData =
  headers :: "'n js_array"
  rows :: "'n js_array list"

text \<open>\<^verbatim>\<open>interface CommandHistory { id; command; result; timestamp }\<close>. Times are
  milliseconds since the epoch.\<close>

record CommandHistory =
  h_id :: js_string
  h_command :: js_string
  h_result :: js_string
  h_timestamp :: int

text \<open>The \<^verbatim>\<open>useState\<close> cells of the component \<^verbatim>\<open>Index\<close>.\<close>

record 'n state =
  excelData :: "'n ExcelData option"
  fileName :: js_string
  isDragging :: bool
  command :: js_string
  commandHistory :: "CommandHistory list"
  isProcessing :: bool

section \<open>Built-in operations of the language\<close>

text \<open>\<^verbatim>\<open>String.prototype.endsWith\<close>.\<close>

definition endsWith :: "js_string \<Rightarrow> js_string \<Rightarrow> bool" where
  "endsWith s t = (length t \<le> length s \<and> drop (length s - length t) s = t)"

text \<open>
  \<^verbatim>\<open>String.prototype.trim\<close> strips the code units of WhiteSpace and LineTerminator from
  both ends: TAB, LF, VT, FF, CR, SP, NBSP, U+1680, U+2000 to U+200A, U+2028, U+2029,
  U+202F, U+205F, U+3000 and U+FEFF.
\<close>

definition isWhiteSpace :: "nat \<Rightarrow> bool" where
  "isWhiteSpace c =
     (c \<in> {0x9, 0xA, 0xB, 0xC, 0xD, 0x20, 0xA0, 0x1680, 0x2028, 0x2029, 0x202F, 0x205F,
            0x3000, 0xFEFF}
      \<or> (0x2000 \<le> c \<and> c \<le> 0x200A))"

definition trim :: "js_string \<Rightarrow> js_string" where
  "trim s = rev (dropWhile isWhiteSpace (rev (dropWhile isWhiteSpace s)))"

text \<open>The decimal digits of a natural number, as \<^verbatim>\<open>Number.prototype.toString\<close> prints an
  array length or an index; and of an integer, as it prints \<^verbatim>\<open>Date.now()\<close>.\<close>

fun show_nat :: "nat \<Rightarrow> js_string" where
  "show_nat n = (if n < 10 then [0x30 + n] else show_nat (n div 10) @ [0x30 + n mod 10])"

declare show_nat.simps [simp del]

definition show_int :: "int \<Rightarrow> js_string" where
  "show_int i = (if i < 0 then 0x2D # show_nat (nat (- i)) else show_nat (nat i))"

text \<open>\<^verbatim>\<open>typeof\<close>, on the values a cell can hold.\<close>

fun typeof :: "'n js_value \<Rightarrow> string" where
  "typeof (VNumber n) = ''number''"
| "typeof (VString s) = ''string''"
| "typeof (VBoolean b) = ''boolean''"
| "typeof VNull = ''object''"
| "typeof VUndefined = ''undefined''"

text \<open>
  ToString of the language, used when a value becomes a property key. How a number prints
  is the parameter \<open>numToString\<close>.
\<close>

fun ToString :: "('n \<Rightarrow> js_string) \<Rightarrow> 'n js_value \<Rightarrow> js_string" where
  "ToString numToString (VNumber n) = numToString n"
| "ToString numToString (VString s) = s"
| "ToString numToString (VBoolean b) = (if b then ascii ''true'' else ascii ''false'')"
| "ToString numToString VNull = ascii ''null''"
| "ToString numToString VUndefined = ascii ''undefined''"

text \<open>\<^verbatim>\<open>Array.prototype.join\<close>: a hole, \<^verbatim>\<open>undefined\<close> and \<^verbatim>\<open>null\<close> print as the empty
  string, any other element by ToString.\<close>

fun join_element :: "('n \<Rightarrow> js_string) \<Rightarrow> 'n js_value option \<Rightarrow> js_string" where
  "join_element numToString None = []"
| "join_element numToString (Some VUndefined) = []"
| "join_element numToString (Some VNull) = []"
| "join_element numToString (Some v) = ToString numToString v"

fun join :: "('n \<Rightarrow> js_string) \<Rightarrow> js_string \<Rightarrow> 'n js_array \<Rightarrow> js_string" where
  "join numToString sep [] = []"
| "join numToString sep [x] = join_element numToString x"
| "join numToString sep (x # y # ys) =
     join_element numToString x @ sep @ join numToString sep (y # ys)"

text \<open>Reading \<^verbatim>\<open>row[i]\<close>: a hole and an index past the end both read as \<^verbatim>\<open>undefined\<close>.\<close>

definition element :: "'n js_array \<Rightarrow> nat \<Rightarrow> 'n js_value" where
  "element row i =
     (if i < length row then (case row ! i of None \<Rightarrow> VUndefined | Some v \<Rightarrow> v)
      else VUndefined)"

text \<open>
  A plain object, as a map from property keys to values. An assignment \<^verbatim>\<open>obj[key] = value\<close>
  creates or overwrites the own property, except for the key \<^verbatim>\<open>__proto__\<close>: that one reaches
  the setter inherited from \<^verbatim>\<open>Object.prototype\<close>, which ignores a value that is no object.
  Every value assigned by the page is a number.
\<close>

type_synonym 'n js_object = "js_string \<rightharpoonup> 'n js_value"

definition set_property :: "'n js_object \<Rightarrow> js_string \<Rightarrow> 'n js_value \<Rightarrow> 'n js_object" where
  "set_property obj key v = (if key = ascii ''__proto__'' then obj else obj(key \<mapsto> v))"

section \<open>Notifications\<close>

datatype toast_variant = VariantDefault | VariantDestructive

record toast =
  title :: js_string
  description :: js_string
  variant :: toast_variant

text \<open>The literals of the four notifications.\<close>

definition lit_file_loaded :: js_string where
  \<comment> \<open>"Fajl zagruzhen" (file loaded)\<close>
  "lit_file_loaded =
     [0x424, 0x430, 0x439, 0x43B, 0x20, 0x437, 0x430, 0x433, 0x440, 0x443, 0x436, 0x435, 0x43D]"

definition lit_processed :: js_string where
  \<comment> \<open>" uspeshno obrabotan" (processed successfully)\<close>
  "lit_processed =
     [0x20, 0x443, 0x441, 0x43F, 0x435, 0x448, 0x43D, 0x43E, 0x20, 0x43E, 0x431, 0x440, 0x430,
      0x431, 0x43E, 0x442, 0x430, 0x43D]"

definition lit_error :: js_string where
  \<comment> \<open>"Oshibka" (error)\<close>
  "lit_error = [0x41E, 0x448, 0x438, 0x431, 0x43A, 0x430]"

definition lit_cannot_process :: js_string where
  \<comment> \<open>"Ne udalos' obrabotat' fajl" (the file could not be processed)\<close>
  "lit_cannot_process =
     [0x41D, 0x435, 0x20, 0x443, 0x434, 0x430, 0x43B, 0x43E, 0x441, 0x44C, 0x20, 0x43E, 0x431,
      0x440, 0x430, 0x431, 0x43E, 0x442, 0x430, 0x442, 0x44C, 0x20, 0x444, 0x430, 0x439, 0x43B]"

definition lit_please_excel :: js_string where
  \<comment> \<open>"Pozhalujsta, zagruzite Excel fajl" (please load an Excel file)\<close>
  "lit_please_excel =
     [0x41F, 0x43E, 0x436, 0x430, 0x43B, 0x443, 0x439, 0x441, 0x442, 0x430, 0x2C, 0x20, 0x437,
      0x430, 0x433, 0x440, 0x443, 0x437, 0x438, 0x442, 0x435, 0x20, 0x45, 0x78, 0x63, 0x65,
      0x6C, 0x20, 0x444, 0x430, 0x439, 0x43B]"

definition lit_command_done :: js_string where
  \<comment> \<open>"Komanda vypolnena" (command executed)\<close>
  "lit_command_done =
     [0x41A, 0x43E, 0x43C, 0x430, 0x43D, 0x434, 0x430, 0x20, 0x432, 0x44B, 0x43F, 0x43E, 0x43B,
      0x43D, 0x435, 0x43D, 0x430]"

definition lit_result_added :: js_string where
  \<comment> \<open>"Rezul'tat dobavlen v istoriyu" (result added to the history)\<close>
  "lit_result_added =
     [0x420, 0x435, 0x437, 0x443, 0x43B, 0x44C, 0x442, 0x430, 0x442, 0x20, 0x434, 0x43E, 0x431,
      0x430, 0x432, 0x43B, 0x435, 0x43D, 0x20, 0x432, 0x20, 0x438, 0x441, 0x442, 0x43E, 0x440,
      0x438, 0x44E]"

section \<open>Loading a file\<close>

text \<open>A \<^verbatim>\<open>File\<close>; the page reads its name, the decoder its bytes.\<close>

record File =
  name :: js_string

text \<open>
  What lines 65 to 68 of the \<^verbatim>\<open>try\<close> block come to: the decoding library throws, or
  \<^verbatim>\<open>sheet_to_json(firstSheet, { header: 1 })\<close> returns the rows of the first sheet.
\<close>

datatype 'n decoded = DecodeThrows | Decoded "'n js_array list"

text \<open>
  \<^verbatim>\<open>reader.onload\<close> of \<^verbatim>\<open>processExcelFile\<close>: the new state and the notifications raised.
  The guard \<^verbatim>\<open>jsonData.length > 0\<close> has no \<^verbatim>\<open>else\<close>.
\<close>

definition processExcelFile_onload ::
  "File \<Rightarrow> 'n decoded \<Rightarrow> 'n state \<Rightarrow> 'n state \<times> toast list" where
  "processExcelFile_onload file d s =
     (case d of
        DecodeThrows \<Rightarrow>
          (s, [\<lparr>title = lit_error, description = lit_cannot_process,
                variant = VariantDestructive\<rparr>])
      | Decoded jsonData \<Rightarrow>
          if length jsonData > 0 then
            (s\<lparr>excelData := Some \<lparr>headers = jsonData ! 0, rows = drop 1 jsonData\<rparr>,
               fileName := name file\<rparr>,
             [\<lparr>title = lit_file_loaded, description = name file @ lit_processed,
               variant = VariantDefault\<rparr>])
          else (s, []))"

text \<open>
  \<^verbatim>\<open>handleDrop\<close>: the new state, the notifications raised, and the file handed to
  \<^verbatim>\<open>processExcelFile\<close>, if any.
\<close>

definition handleDrop ::
  "File list \<Rightarrow> 'n state \<Rightarrow> 'n state \<times> toast list \<times> File option" where
  "handleDrop files s =
     (case find (\<lambda>f. endsWith (name f) (ascii ''.xlsx'') \<or> endsWith (name f) (ascii ''.xls''))
             files of
        Some excelFile \<Rightarrow> (s\<lparr>isDragging := False\<rparr>, [], Some excelFile)
      | None \<Rightarrow>
          (s\<lparr>isDragging := False\<rparr>,
           [\<lparr>title = lit_error, description = lit_please_excel,
             variant = VariantDestructive\<rparr>],
           None))"

section \<open>Closing the dataset\<close>

text \<open>The \<^verbatim>\<open>onClick\<close> of the close button:
  \<^verbatim>\<open>setExcelData(null); setFileName(''); setCommandHistory([]);\<close>\<close>

definition closeDataset :: "'n state \<Rightarrow> 'n state" where
  "closeDataset s = s\<lparr>excelData := None, fileName := [], commandHistory := []\<rparr>"

section \<open>Executing a command\<close>

text \<open>The pieces of the template literal that builds the result text.\<close>

definition lit_analysing :: js_string where
  \<comment> \<open>"Analiziruyu komandu: " and an opening double quote\<close>
  "lit_analysing =
     [0x410, 0x43D, 0x430, 0x43B, 0x438, 0x437, 0x438, 0x440, 0x443, 0x44E, 0x20, 0x43A, 0x43E,
      0x43C, 0x430, 0x43D, 0x434, 0x443, 0x3A, 0x20, 0x22]"

definition lit_found :: js_string where
  \<comment> \<open>a closing double quote, two line feeds, "Najdeno " (found)\<close>
  "lit_found = [0x22, 0xA, 0xA, 0x41D, 0x430, 0x439, 0x434, 0x435, 0x43D, 0x43E, 0x20]"

definition lit_rows_columns :: js_string where
  \<comment> \<open>" strok dannyh." (rows of data), a line feed, "Kolonki: " (columns)\<close>
  "lit_rows_columns =
     [0x20, 0x441, 0x442, 0x440, 0x43E, 0x43A, 0x20, 0x434, 0x430, 0x43D, 0x43D, 0x44B, 0x445,
      0x2E, 0xA, 0x41A, 0x43E, 0x43B, 0x43E, 0x43D, 0x43A, 0x438, 0x3A, 0x20]"

definition lit_connect_api :: js_string where
  \<comment> \<open>two line feeds, "Dlya polnoj integraacii s AI podklyuchite DeepSeek API."\<close>
  "lit_connect_api =
     [0xA, 0xA, 0x414, 0x43B, 0x44F, 0x20, 0x43F, 0x43E, 0x43B, 0x43D, 0x43E, 0x439, 0x20,
      0x438, 0x43D, 0x442, 0x435, 0x433, 0x440, 0x430, 0x430, 0x446, 0x438, 0x438, 0x20, 0x441,
      0x20, 0x41, 0x49, 0x20, 0x43F, 0x43E, 0x434, 0x43A, 0x43B, 0x44E, 0x447, 0x438, 0x442,
      0x435, 0x20, 0x44, 0x65, 0x65, 0x70, 0x53, 0x65, 0x65, 0x6B, 0x20, 0x41, 0x50, 0x49,
      0x2E]"

text \<open>\<^verbatim>\<open>onChange\<close> of the command field: \<^verbatim>\<open>setCommand(e.target.value)\<close>.\<close>

definition setCommand :: "js_string \<Rightarrow> 'n state \<Rightarrow> 'n state" where
  "setCommand text s = s\<lparr>command := text\<rparr>"

text \<open>What the timer callback closes over: \<^verbatim>\<open>command\<close> and \<^verbatim>\<open>excelData\<close> as they were
  when \<^verbatim>\<open>executeCommand\<close> ran.\<close>

record 'n pending =
  p_command :: js_string
  p_excelData :: "'n ExcelData"

text \<open>
  \<^verbatim>\<open>executeCommand\<close> up to \<^verbatim>\<open>setTimeout\<close>: it returns at once on a blank command or an
  absent model, and otherwise raises the busy flag and arms the timer.
\<close>

definition executeCommand :: "'n state \<Rightarrow> 'n state \<times> 'n pending option" where
  "executeCommand s =
     (case excelData s of
        None \<Rightarrow> (s, None)
      | Some d \<Rightarrow>
          if trim (command s) = [] then (s, None)
          else (s\<lparr>isProcessing := True\<rparr>, Some \<lparr>p_command = command s, p_excelData = d\<rparr>))"

text \<open>\<^verbatim>\<open>newEntry\<close>; \<open>now_id\<close> is what \<^verbatim>\<open>Date.now()\<close> reads and \<open>now_ts\<close> what
  \<^verbatim>\<open>new Date()\<close> reads.\<close>

definition newEntry ::
  "('n \<Rightarrow> js_string) \<Rightarrow> 'n pending \<Rightarrow> int \<Rightarrow> int \<Rightarrow> CommandHistory" where
  "newEntry numToString p now_id now_ts =
     \<lparr>h_id = show_int now_id,
      h_command = trim (p_command p),
      h_result =
        lit_analysing @ p_command p @ lit_found
        @ show_nat (length (rows (p_excelData p))) @ lit_rows_columns
        @ join numToString (ascii '', '') (headers (p_excelData p)) @ lit_connect_api,
      h_timestamp = now_ts\<rparr>"

text \<open>The timer callback, one second later: the entry goes in front of the history as it
  is by then, the command field is emptied, the busy flag drops, and a notification is
  raised.\<close>

definition executeCommand_timeout ::
  "('n \<Rightarrow> js_string) \<Rightarrow> 'n pending \<Rightarrow> int \<Rightarrow> int \<Rightarrow> 'n state \<Rightarrow> 'n state \<times> toast list" where
  "executeCommand_timeout numToString p now_id now_ts s =
     (s\<lparr>commandHistory := newEntry numToString p now_id now_ts # commandHistory s,
        command := [],
        isProcessing := False\<rparr>,
      [\<lparr>title = lit_command_done, description = lit_result_added,
        variant = VariantDefault\<rparr>])"

text \<open>
  One command run to completion: the text is typed, \<^verbatim>\<open>executeCommand\<close> runs, and the timer
  fires before anything else happens. A submission is the text with the two clock readings
  of its completion.
\<close>

type_synonym submission = "js_string \<times> int \<times> int"

definition run_command :: "('n \<Rightarrow> js_string) \<Rightarrow> 'n state \<Rightarrow> submission \<Rightarrow> 'n state" where
  "run_command numToString s c =
     (case c of (text, now_id, now_ts) \<Rightarrow>
        (case executeCommand (setCommand text s) of
           (s', None) \<Rightarrow> s'
         | (s', Some p) \<Rightarrow> fst (executeCommand_timeout numToString p now_id now_ts s')))"

definition run_commands ::
  "('n \<Rightarrow> js_string) \<Rightarrow> 'n state \<Rightarrow> submission list \<Rightarrow> 'n state" where
  "run_commands numToString s cs = foldl (run_command numToString) s cs"

text \<open>The entry that a submission leaves against the model \<open>d\<close>.\<close>

definition entryFor ::
  "('n \<Rightarrow> js_string) \<Rightarrow> 'n ExcelData \<Rightarrow> submission \<Rightarrow> CommandHistory" where
  "entryFor numToString d c =
     (case c of (text, now_id, now_ts) \<Rightarrow>
        newEntry numToString \<lparr>p_command = text, p_excelData = d\<rparr> now_id now_ts)"

section \<open>Chart data\<close>

definition lit_row :: js_string where
  \<comment> \<open>"Stroka " (row), with its trailing space\<close>
  "lit_row = [0x421, 0x442, 0x440, 0x43E, 0x43A, 0x430, 0x20]"

text \<open>
  \<^verbatim>\<open>excelData.headers.forEach((header, i) => ...)\<close> on the object being filled: a hole among
  the headers is skipped, and a header is assigned only where \<^verbatim>\<open>row[i]\<close> is a number.
\<close>

fun headers_forEach ::
  "('n \<Rightarrow> js_string) \<Rightarrow> 'n js_array \<Rightarrow> nat \<Rightarrow> 'n js_array \<Rightarrow> 'n js_object \<Rightarrow> 'n js_object" where
  "headers_forEach numToString [] i row obj = obj"
| "headers_forEach numToString (None # hs) i row obj =
     headers_forEach numToString hs (Suc i) row obj"
| "headers_forEach numToString (Some header # hs) i row obj =
     headers_forEach numToString hs (Suc i) row
       (let v = element row i in
        if typeof v = ''number'' then set_property obj (ToString numToString header) v
        else obj)"

text \<open>The body of the \<^verbatim>\<open>map\<close> callback: one point from one row and its index.\<close>

definition chart_point ::
  "('n \<Rightarrow> js_string) \<Rightarrow> 'n js_array \<Rightarrow> 'n js_array \<Rightarrow> nat \<Rightarrow> 'n js_object" where
  "chart_point numToString hs row index =
     headers_forEach numToString hs 0 row
       [ascii ''name'' \<mapsto> VString (lit_row @ show_nat (index + 1))]"

definition getChartData :: "('n \<Rightarrow> js_string) \<Rightarrow> 'n ExcelData option \<Rightarrow> 'n js_object list" where
  "getChartData numToString e =
     (case e of
        None \<Rightarrow> []
      | Some d \<Rightarrow>
          if length (rows d) = 0 then []
          else map (\<lambda>(index, row). chart_point numToString (headers d) row index)
                 (enumerate 0 (take 10 (rows d))))"

section \<open>The initial state and the scenario of the specification\<close>

text \<open>The initial values of the \<^verbatim>\<open>useState\<close> cells.\<close>

definition initial :: "'n state" where
  "initial = \<lparr>excelData = None, fileName = [], isDragging = False, command = [],
     commandHistory = [], isProcessing = False\<rparr>"

text \<open>The decoded sheet of the specification's scenario, with integers for the numbers
  (printed in decimal), and the model it loads as.\<close>

definition scenario_sheet :: "int js_array list" where
  "scenario_sheet =
     [[Some (VString (ascii ''Name'')), Some (VString (ascii ''Sales''))],
      [Some (VString (ascii ''Alice'')), Some (VNumber 10)],
      [Some (VString (ascii ''Bob'')), Some (VString (ascii ''n/a''))]]"

definition scenario_model :: "int ExcelData" where
  "scenario_model = \<lparr>headers = scenario_sheet ! 0, rows = drop 1 scenario_sheet\<rparr>"

text \<open>A sheet whose second row stops after its first cell, as the decoder returns it when the
  cell B2 is empty.\<close>

definition ragged_sheet :: "int js_array list" where
  "ragged_sheet =
     [[Some (VString (ascii ''Name'')), Some (VString (ascii ''Sales''))],
      [Some (VString (ascii ''Alice''))]]"

definition ragged_model :: "int ExcelData" where
  "ragged_model = \<lparr>headers = ragged_sheet ! 0, rows = drop 1 ragged_sheet\<rparr>"

text \<open>The session once the scenario's sheet is loaded, and the scenario's command (Russian
  for "mean value"; sixteen code units, lower case, one space).\<close>

definition scenario_state :: "int state" where
  "scenario_state =
     initial\<lparr>excelData := Some scenario_model, fileName := ascii ''sales.xlsx''\<rparr>"

definition scenario_command :: js_string where
  "scenario_command =
     [0x441, 0x440, 0x435, 0x434, 0x43D, 0x435, 0x435, 0x20, 0x437, 0x43D, 0x430, 0x447, 0x435,
      0x43D, 0x438, 0x435]"

section \<open>Properties\<close>

subsection \<open>Evaluating the scenario\<close>

lemmas scenario_simps = getChartData_def scenario_model_def scenario_sheet_def enumerate_eq_zip
  chart_point_def element_def set_property_def ascii_def lit_row_def show_nat.simps

lemma scenario_headers:
  "headers scenario_model
   = [Some (VString (ascii ''Name'')), Some (VString (ascii ''Sales''))]"
  by (simp add: scenario_model_def scenario_sheet_def)

lemma scenario_rows:
  "rows scenario_model
   = [[Some (VString (ascii ''Alice'')), Some (VNumber 10)],
      [Some (VString (ascii ''Bob'')), Some (VString (ascii ''n/a''))]]"
  by (simp add: scenario_model_def scenario_sheet_def)

subsection \<open>Building the model\<close>

text \<open>
  C1, as the code has it. For a decoded sheet with at least one row, the model built has the
  first row as its headers and the remaining rows, unchanged, as its rows. Nothing pads or
  cuts a row, so every row is as long as the header row exactly when every decoded row after
  the first is as long as the first.
\<close>

theorem build_row_lengths:
  assumes "jsonData \<noteq> []"
  shows "\<exists>d. excelData (fst (processExcelFile_onload file (Decoded jsonData) s)) = Some d \<and>
           headers d = hd jsonData \<and> rows d = tl jsonData \<and>
           ((\<forall>i<length (rows d). length (rows d ! i) = length (headers d))
            \<longleftrightarrow> (\<forall>r\<in>set (tl jsonData). length r = length (hd jsonData)))"
proof -
  from assms obtain h rs where j: "jsonData = h # rs" by (cases jsonData) auto
  have "(\<forall>i<length rs. length (rs ! i) = length h) \<longleftrightarrow> (\<forall>r\<in>set rs. length r = length h)"
    by (simp add: all_set_conv_all_nth)
  then show ?thesis
    by (simp add: processExcelFile_onload_def j)
qed

text \<open>
  The scenario's sheet has three rows of two cells each and loads as a model whose two rows
  have the header's length.
\<close>

theorem build_row_lengths_witness:
  "scenario_sheet \<noteq> [] \<and>
   excelData (fst (processExcelFile_onload \<lparr>name = ascii ''sales.xlsx''\<rparr>
                     (Decoded scenario_sheet) initial)) = Some scenario_model \<and>
   length (rows scenario_model ! 0) = length (headers scenario_model) \<and>
   length (rows scenario_model ! 1) = length (headers scenario_model)"
proof -
  have ne: "scenario_sheet \<noteq> []" by (simp add: scenario_sheet_def)
  have uniform: "\<forall>r\<in>set (tl scenario_sheet). length r = length (hd scenario_sheet)"
    by (simp add: scenario_sheet_def)
  have m: "excelData (fst (processExcelFile_onload \<lparr>name = ascii ''sales.xlsx''\<rparr>
                     (Decoded scenario_sheet) initial)) = Some scenario_model"
    by (simp add: processExcelFile_onload_def scenario_model_def scenario_sheet_def)
  from build_row_lengths [OF ne, of "\<lparr>name = ascii ''sales.xlsx''\<rparr>" initial] m uniform
  have "\<forall>i<length (rows scenario_model).
          length (rows scenario_model ! i) = length (headers scenario_model)"
    by auto
  then have "length (rows scenario_model ! 0) = length (headers scenario_model) \<and>
   length (rows scenario_model ! 1) = length (headers scenario_model)"
    by (simp add: scenario_rows scenario_headers)
  with ne m show ?thesis by simp
qed

text \<open>
  C1 as stated fails on the ragged sheet: the one data row has one cell under two
  headers.
\<close>

theorem build_row_lengths_counterexample:
  "excelData (fst (processExcelFile_onload \<lparr>name = ascii ''ragged.xlsx''\<rparr>
                     (Decoded ragged_sheet) initial)) = Some ragged_model \<and>
   length (rows ragged_model ! 0) = 1 \<and>
   length (headers ragged_model) = 2"
  by (simp add: processExcelFile_onload_def ragged_model_def ragged_sheet_def)

text \<open>
  C2, on the code. An empty decoded sheet passes through the handler without any effect: the
  state is returned as it was, which is what the claim says, but no notification at all is
  raised, where the claim has an error notification.
\<close>

theorem processExcelFile_onload_empty:
  "processExcelFile_onload file (Decoded []) s = (s, [])"
  by (simp add: processExcelFile_onload_def)

text \<open>
  The neighbouring failure path does raise one: when decoding throws, the \<^verbatim>\<open>catch\<close> block
  signals a destructive notification and leaves the state alone.
\<close>

lemma processExcelFile_onload_throws:
  "processExcelFile_onload file DecodeThrows s
   = (s, [\<lparr>title = lit_error, description = lit_cannot_process,
            variant = VariantDestructive\<rparr>])"
  by (simp add: processExcelFile_onload_def)

subsection \<open>The chart projection\<close>

lemma headers_forEach_provenance:
  "headers_forEach nts hs i row obj key = Some v \<Longrightarrow>
   obj key = Some v \<or>
   (typeof v = ''number'' \<and>
    (\<exists>j<length hs. \<exists>h. hs ! j = Some h \<and> ToString nts h = key \<and> element row (i + j) = v))"
proof (induction hs arbitrary: i obj)
  case Nil
  then show ?case by simp
next
  case (Cons x hs)
  show ?case
  proof (cases x)
    case None
    with Cons.prems have "headers_forEach nts hs (Suc i) row obj key = Some v" by simp
    from Cons.IH [OF this] show ?thesis by auto
  next
    case (Some header)
    let ?obj = "(let v = element row i in
        if typeof v = ''number'' then set_property obj (ToString nts header) v else obj)"
    from Cons.prems Some have "headers_forEach nts hs (Suc i) row ?obj key = Some v" by simp
    from Cons.IH [OF this] consider
        (here) "?obj key = Some v"
      | (later) "typeof v = ''number''"
          "\<exists>j<length hs. \<exists>h. hs ! j = Some h \<and> ToString nts h = key \<and> element row (Suc i + j) = v"
      by blast
    then show ?thesis
    proof cases
      case here
      then have "obj key = Some v \<or>
        (typeof v = ''number'' \<and> ToString nts header = key \<and> element row i = v)"
        by (auto simp: Let_def set_property_def split: if_splits)
      with Some show ?thesis by fastforce
    next
      case later
      then obtain j h where "j < length hs" "hs ! j = Some h" "ToString nts h = key"
        "element row (Suc i + j) = v" by blast
      then have "Suc j < length (x # hs) \<and> (x # hs) ! Suc j = Some h \<and> ToString nts h = key
        \<and> element row (i + Suc j) = v" by simp
      with later(1) show ?thesis by blast
    qed
  qed
qed

lemma headers_forEach_untouched:
  "(\<And>j h. j < length hs \<Longrightarrow> hs ! j = Some h \<Longrightarrow> ToString nts h = key \<Longrightarrow>
      typeof (element row (i + j)) \<noteq> ''number'') \<Longrightarrow>
   headers_forEach nts hs i row obj key = obj key"
proof (induction hs arbitrary: i obj)
  case Nil
  then show ?case by simp
next
  case (Cons x hs)
  have tl: "\<And>j h. j < length hs \<Longrightarrow> hs ! j = Some h \<Longrightarrow> ToString nts h = key \<Longrightarrow>
      typeof (element row (Suc i + j)) \<noteq> ''number''"
    using Cons.prems [of "Suc j" for j] by simp
  show ?case
  proof (cases x)
    case None
    then show ?thesis using Cons.IH [OF tl] by simp
  next
    case (Some header)
    have "ToString nts header = key \<Longrightarrow> typeof (element row i) \<noteq> ''number''"
      using Cons.prems [of 0 header] Some by simp
    then show ?thesis using Cons.IH [OF tl] Some
      by (simp add: Let_def set_property_def)
  qed
qed

lemma getChartData_nth:
  "i < min 10 (length (rows d)) \<Longrightarrow>
   getChartData nts (Some d) ! i = chart_point nts (headers d) (rows d ! i) i"
  by (auto simp: getChartData_def nth_enumerate_eq)

lemma length_getChartData:
  "length (getChartData nts (Some d)) = min 10 (length (rows d))"
  by (simp add: getChartData_def min.commute)

text \<open>
  C3, as the code has it. The label is the literal \<open>lit_row\<close> (a Russian word and a space,
  not the English "Row ") followed by the decimal 1-based index, and it is stored under the
  key \<^verbatim>\<open>name\<close>. The statement is for rows in which no numeric cell stands under a header
  whose key is \<^verbatim>\<open>name\<close>.
\<close>

theorem chart_point_label:
  assumes "i < min 10 (length (rows d))"
    and "\<forall>j<length (headers d). \<forall>h. headers d ! j = Some h \<longrightarrow>
           ToString nts h = ascii ''name'' \<longrightarrow> typeof (element (rows d ! i) j) \<noteq> ''number''"
  shows "(getChartData nts (Some d) ! i) (ascii ''name'')
         = Some (VString (lit_row @ show_nat (i + 1)))"
proof -
  have "headers_forEach nts (headers d) 0 (rows d ! i)
          [ascii ''name'' \<mapsto> VString (lit_row @ show_nat (i + 1))] (ascii ''name'')
        = [ascii ''name'' \<mapsto> VString (lit_row @ show_nat (i + 1))] (ascii ''name'')"
    using assms(2) by (intro headers_forEach_untouched) simp
  then show ?thesis
    using assms(1) by (simp add: getChartData_nth chart_point_def)
qed

text \<open>
  The first point of the scenario carries the seven code units of \<open>lit_row\<close> and the
  digit 1.
\<close>

theorem chart_point_label_witness:
  "(getChartData show_int (Some scenario_model) ! 0) (ascii ''name'')
     = Some (VString [0x421, 0x442, 0x440, 0x43E, 0x43A, 0x430, 0x20, 0x31])"
proof -
  have h1: "0 < min 10 (length (rows scenario_model))"
    by (simp add: scenario_rows)
  have h2: "\<forall>j<length (headers scenario_model). \<forall>h. headers scenario_model ! j = Some h \<longrightarrow>
           ToString show_int h = ascii ''name'' \<longrightarrow>
           typeof (element (rows scenario_model ! 0) j) \<noteq> ''number''"
    by (simp add: scenario_headers less_Suc_eq ascii_def)
  from chart_point_label [OF h1 h2] show ?thesis
    by (simp add: lit_row_def show_nat.simps)
qed

text \<open>
  C3 as stated fails. The first point of the scenario is the object with the two keys
  \<^verbatim>\<open>name\<close> and \<^verbatim>\<open>Sales\<close>, and the string under \<^verbatim>\<open>name\<close> is not "Row 1".
\<close>

theorem chart_point_label_counterexample:
  "getChartData show_int (Some scenario_model) ! 0
     = [ascii ''name'' \<mapsto> VString [0x421, 0x442, 0x440, 0x43E, 0x43A, 0x430, 0x20, 0x31],
        ascii ''Sales'' \<mapsto> VNumber 10] \<and>
   [0x421, 0x442, 0x440, 0x43E, 0x43A, 0x430, 0x20, 0x31] \<noteq> ascii ''Row 1''"
  by (simp add: scenario_simps)

text \<open>
  A header that is itself called \<^verbatim>\<open>name\<close> shares the label's key: a number under it
  replaces the label.
\<close>

lemma chart_point_name_collision:
  "(getChartData show_int
      (Some \<lparr>headers = [Some (VString (ascii ''name''))], rows = [[Some (VNumber 7)]]\<rparr>) ! 0)
     (ascii ''name'') = Some (VNumber 7)"
  by (simp add: getChartData_def enumerate_eq_zip chart_point_def element_def
      set_property_def ascii_def)

text \<open>
  C4. For a present model the projection has \<open>min 10 (length rows)\<close> points.
\<close>

theorem getChartData_length:
  "length (getChartData nts (Some d)) = min 10 (length (rows d))"
  by (simp add: getChartData_def min.commute)

text \<open>
  C5. In every point, a key other than the label key \<^verbatim>\<open>name\<close> holds a value of type
  number, and that value is the cell of the row under a header with this key; a key under
  which the row has no numeric cell is not in the point at all.
\<close>

theorem chart_point_numeric:
  assumes "i < length (getChartData nts (Some d))"
    and "key \<noteq> ascii ''name''"
  shows "(\<forall>v. (getChartData nts (Some d) ! i) key = Some v \<longrightarrow>
            typeof v = ''number'' \<and>
            (\<exists>j<length (headers d). \<exists>h. headers d ! j = Some h \<and> ToString nts h = key \<and>
               element (rows d ! i) j = v)) \<and>
         ((\<forall>j<length (headers d). \<forall>h. headers d ! j = Some h \<longrightarrow> ToString nts h = key \<longrightarrow>
             typeof (element (rows d ! i) j) \<noteq> ''number'') \<longrightarrow>
          (getChartData nts (Some d) ! i) key = None)"
proof -
  let ?obj = "[ascii ''name'' \<mapsto> VString (lit_row @ show_nat (i + 1))] :: 'a js_object"
  from assms(1) have i: "i < min 10 (length (rows d))"
    by (simp add: length_getChartData)
  then have pt: "getChartData nts (Some d) ! i
      = headers_forEach nts (headers d) 0 (rows d ! i) ?obj"
    by (simp add: getChartData_nth chart_point_def)
  have start: "?obj key = None" using assms(2) by simp
  have "typeof v = ''number'' \<and>
        (\<exists>j<length (headers d). \<exists>h. headers d ! j = Some h \<and> ToString nts h = key \<and>
           element (rows d ! i) j = v)"
    if "(getChartData nts (Some d) ! i) key = Some v" for v
    using headers_forEach_provenance [of nts "headers d" 0 "rows d ! i" ?obj key v] that start pt
    by simp
  moreover have "(getChartData nts (Some d) ! i) key = None"
    if "\<forall>j<length (headers d). \<forall>h. headers d ! j = Some h \<longrightarrow> ToString nts h = key \<longrightarrow>
             typeof (element (rows d ! i) j) \<noteq> ''number''"
  proof -
    have "headers_forEach nts (headers d) 0 (rows d ! i) ?obj key = ?obj key"
      using that by (intro headers_forEach_untouched) simp
    with start pt show ?thesis by simp
  qed
  ultimately show ?thesis by blast
qed

text \<open>
  In the scenario, Alice's point has \<^verbatim>\<open>Sales\<close> with the number 10, and Bob's point, whose
  cell is the string \<^verbatim>\<open>n/a\<close>, has no \<^verbatim>\<open>Sales\<close> key.
\<close>

theorem chart_point_numeric_witness:
  "(getChartData show_int (Some scenario_model) ! 0) (ascii ''Sales'') = Some (VNumber 10) \<and>
   typeof (VNumber (10::int)) = ''number'' \<and>
   (getChartData show_int (Some scenario_model) ! 1) (ascii ''Sales'') = None"
proof -
  have len: "length (getChartData show_int (Some scenario_model)) = 2"
    by (simp add: getChartData_def scenario_rows)
  have key: "ascii ''Sales'' \<noteq> ascii ''name''"
    by (simp add: ascii_def)
  have p0: "(getChartData show_int (Some scenario_model) ! 0) (ascii ''Sales'')
              = Some (VNumber 10)"
    by (simp add: scenario_simps)
  have bob: "\<forall>j<length (headers scenario_model). \<forall>h. headers scenario_model ! j = Some h \<longrightarrow>
           ToString show_int h = ascii ''Sales'' \<longrightarrow>
           typeof (element (rows scenario_model ! 1) j) \<noteq> ''number''"
    by (simp add: scenario_headers scenario_rows less_Suc_eq ascii_def element_def)
  from chart_point_numeric [of 0 show_int scenario_model "ascii ''Sales''"] len key p0
  have "typeof (VNumber (10::int)) = ''number''" by simp
  moreover from chart_point_numeric [of 1 show_int scenario_model "ascii ''Sales''"] len key bob
  have "(getChartData show_int (Some scenario_model) ! 1) (ascii ''Sales'') = None" by simp
  ultimately show ?thesis using p0 by simp
qed

subsection \<open>Commands and the history\<close>

lemma run_command_history:
  assumes "excelData s = Some d" and "trim (fst c) \<noteq> []"
  shows "commandHistory (run_command nts s c) = entryFor nts d c # commandHistory s"
  using assms
  by (cases c) (simp add: run_command_def executeCommand_def setCommand_def
      executeCommand_timeout_def entryFor_def)

lemma run_command_excelData:
  assumes "excelData s = Some d" and "trim (fst c) \<noteq> []"
  shows "excelData (run_command nts s c) = Some d"
  using assms
  by (cases c) (simp add: run_command_def executeCommand_def setCommand_def
      executeCommand_timeout_def)

lemma run_commands_history:
  assumes "excelData s = Some d" and "\<forall>c\<in>set cs. trim (fst c) \<noteq> []"
  shows "commandHistory (run_commands nts s cs)
         = rev (map (entryFor nts d) cs) @ commandHistory s"
  using assms unfolding run_commands_def
proof (induction cs arbitrary: s)
  case Nil
  then show ?case by simp
next
  case (Cons c cs)
  from Cons.prems have c: "trim (fst c) \<noteq> []" and cs: "\<forall>c\<in>set cs. trim (fst c) \<noteq> []"
    by simp_all
  note model = run_command_excelData [OF Cons.prems(1) c, of nts]
  note front = run_command_history [OF Cons.prems(1) c, of nts]
  from Cons.IH [OF model cs] front show ?case by simp
qed

lemma sublist_result:
  "sublist (show_nat (length (rows d))) (h_result (entryFor nts d (cmd, t1, t2)))"
  "sublist (join nts (ascii '', '') (headers d)) (h_result (entryFor nts d (cmd, t1, t2)))"
proof -
  let ?r = "h_result (entryFor nts d (cmd, t1, t2))"
  have "?r = (lit_analysing @ cmd @ lit_found) @ show_nat (length (rows d))
        @ (lit_rows_columns @ join nts (ascii '', '') (headers d) @ lit_connect_api)"
    by (simp add: entryFor_def newEntry_def)
  then show "sublist (show_nat (length (rows d))) ?r"
    by (simp only: sublist_appendI)
  have "?r = (lit_analysing @ cmd @ lit_found @ show_nat (length (rows d)) @ lit_rows_columns)
        @ join nts (ascii '', '') (headers d) @ lit_connect_api"
    by (simp add: entryFor_def newEntry_def)
  then show "sublist (join nts (ascii '', '') (headers d)) ?r"
    by (simp only: sublist_appendI)
qed

text \<open>
  C6. Commands with non-blank text, each run to completion before the next is typed, leave
  their entries in front of the earlier history in reverse order of execution: the entry
  of the \<open>j\<close>-th command (counting from 0) of \<open>n\<close> stands at index \<open>n - 1 - j\<close>, so a later
  entry has a strictly smaller index. For two commands \<open>c1\<close>, \<open>c2\<close> the history is the
  entry of \<open>c2\<close>, the entry of \<open>c1\<close>, and then what was there before.
\<close>

theorem history_newest_first:
  assumes "excelData s = Some d" and "\<forall>c\<in>set cs. trim (fst c) \<noteq> []"
  shows "commandHistory (run_commands nts s cs)
           = rev (map (entryFor nts d) cs) @ commandHistory s \<and>
         (\<forall>j<length cs. commandHistory (run_commands nts s cs) ! (length cs - Suc j)
                          = entryFor nts d (cs ! j))"
proof -
  have eq: "commandHistory (run_commands nts s cs)
           = rev (map (entryFor nts d) cs) @ commandHistory s"
    by (rule run_commands_history [OF assms])
  have "(rev (map (entryFor nts d) cs) @ commandHistory s) ! (length cs - Suc j)
          = entryFor nts d (cs ! j)" if "j < length cs" for j
    using that by (simp add: nth_append rev_nth)
  with eq show ?thesis by simp
qed

text \<open>
  Two commands against the scenario's session, starting from the empty history.
\<close>

theorem history_newest_first_witness:
  "commandHistory (run_commands show_int scenario_state
      [(ascii ''sum'', 1000, 1001), (scenario_command, 3000, 3001)])
   = [entryFor show_int scenario_model (scenario_command, 3000, 3001),
      entryFor show_int scenario_model (ascii ''sum'', 1000, 1001)]"
proof -
  have m: "excelData scenario_state = Some scenario_model"
    by (simp add: scenario_state_def)
  have t: "\<forall>c\<in>set [(ascii ''sum'', 1000::int, 1001::int), (scenario_command, 3000, 3001)].
             trim (fst c) \<noteq> []"
    by (simp add: trim_def isWhiteSpace_def ascii_def scenario_command_def)
  from history_newest_first [OF m t, of show_int] show ?thesis
    by (simp add: scenario_state_def initial_def)
qed

text \<open>
  C8. A command whose trimmed text is not empty, run against a present model, puts in front
  of the history an entry whose result text contains the decimal number of rows and the
  headers joined with a comma and a space.
\<close>

theorem result_reports_shape:
  assumes "excelData s = Some d" and "trim cmd \<noteq> []"
  shows "commandHistory (run_command nts s (cmd, t1, t2))
           = entryFor nts d (cmd, t1, t2) # commandHistory s \<and>
         sublist (show_nat (length (rows d))) (h_result (entryFor nts d (cmd, t1, t2))) \<and>
         sublist (join nts (ascii '', '') (headers d))
           (h_result (entryFor nts d (cmd, t1, t2)))"
proof -
  have "commandHistory (run_command nts s (cmd, t1, t2))
          = entryFor nts d (cmd, t1, t2) # commandHistory s"
    using assms by (intro run_command_history) simp_all
  then show ?thesis
    by (simp add: sublist_result)
qed

text \<open>
  The scenario: against the model of two rows with the headers \<^verbatim>\<open>Name\<close> and \<^verbatim>\<open>Sales\<close>, the
  result text contains \<^verbatim>\<open>2\<close> and \<^verbatim>\<open>Name, Sales\<close>.
\<close>

theorem result_reports_shape_witness:
  "trim scenario_command \<noteq> [] \<and>
   hd (commandHistory (run_command show_int scenario_state (scenario_command, 3000, 3001)))
     = entryFor show_int scenario_model (scenario_command, 3000, 3001) \<and>
   sublist (ascii ''2'') (h_result (entryFor show_int scenario_model (scenario_command, 3000, 3001))) \<and>
   sublist (ascii ''Name, Sales'')
     (h_result (entryFor show_int scenario_model (scenario_command, 3000, 3001)))"
proof -
  have m: "excelData scenario_state = Some scenario_model"
    by (simp add: scenario_state_def)
  have t: "trim scenario_command \<noteq> []"
    by (simp add: trim_def isWhiteSpace_def scenario_command_def)
  have two: "show_nat (length (rows scenario_model)) = ascii ''2''"
    by (simp add: scenario_rows ascii_def show_nat.simps)
  have hs: "join show_int (ascii '', '') (headers scenario_model) = ascii ''Name, Sales''"
    by (simp add: scenario_headers ascii_def)
  from result_reports_shape [OF m t, of show_int 3000 3001] t show ?thesis
    by (simp add: two hs)
qed

subsection \<open>Closing the dataset and rejected drops\<close>

text \<open>
  C7. Closing the dataset yields, from any session state whatever, an absent model, the
  empty file name and the empty history, all in the one transition.
\<close>

theorem closeDataset_clears:
  "excelData (closeDataset s) = None \<and>
   fileName (closeDataset s) = [] \<and>
   commandHistory (closeDataset s) = []"
  by (simp add: closeDataset_def)

text \<open>
  C9. A drop in which no file name ends in \<^verbatim>\<open>.xlsx\<close> or \<^verbatim>\<open>.xls\<close> raises exactly one
  notification, the destructive one asking for an Excel file, hands no file to
  \<^verbatim>\<open>processExcelFile\<close>, and leaves the model, the file name and the history as they were.
\<close>

theorem handleDrop_unsupported:
  assumes "\<forall>f\<in>set files. \<not> endsWith (name f) (ascii ''.xlsx'') \<and> \<not> endsWith (name f) (ascii ''.xls'')"
  shows "handleDrop files s =
           (s\<lparr>isDragging := False\<rparr>,
            [\<lparr>title = lit_error, description = lit_please_excel, variant = VariantDestructive\<rparr>],
            None) \<and>
         excelData (fst (handleDrop files s)) = excelData s \<and>
         fileName (fst (handleDrop files s)) = fileName s \<and>
         commandHistory (fst (handleDrop files s)) = commandHistory s"
proof -
  have "find (\<lambda>f. endsWith (name f) (ascii ''.xlsx'') \<or> endsWith (name f) (ascii ''.xls'')) files
        = None"
    using assms by (simp add: find_None_iff)
  then show ?thesis by (simp add: handleDrop_def)
qed

text \<open>
  Dropping \<^verbatim>\<open>report.pdf\<close> on the scenario's session.
\<close>

theorem handleDrop_unsupported_witness:
  "\<not> endsWith (ascii ''report.pdf'') (ascii ''.xlsx'') \<and>
   \<not> endsWith (ascii ''report.pdf'') (ascii ''.xls'') \<and>
   handleDrop [\<lparr>name = ascii ''report.pdf''\<rparr>] scenario_state =
     (scenario_state,
      [\<lparr>title = lit_error, description = lit_please_excel, variant = VariantDestructive\<rparr>],
      None)"
proof -
  have pdf: "\<not> endsWith (ascii ''report.pdf'') (ascii ''.xlsx'') \<and>
    \<not> endsWith (ascii ''report.pdf'') (ascii ''.xls'')"
    by (simp add: endsWith_def ascii_def)
  then have "\<forall>f\<in>set [\<lparr>name = ascii ''report.pdf''\<rparr>].
     \<not> endsWith (name f) (ascii ''.xlsx'') \<and> \<not> endsWith (name f) (ascii ''.xls'')"
    by simp
  from handleDrop_unsupported [OF this, of scenario_state] pdf show ?thesis
    by (simp add: scenario_state_def initial_def)
qed

text \<open>
  C10. Closing the dataset leaves the command text being typed and the busy flag as they
  were.
\<close>

theorem closeDataset_frame:
  "command (closeDataset s) = command s \<and>
   isProcessing (closeDataset s) = isProcessing s"
  by (simp add: closeDataset_def)

end
